theory Spec2Isabelle
  imports Complex_Main
begin

section \<open>JavaScript values seen by the handler\<close>

text \<open>
  The handler of \<^verbatim>\<open>gemini.js\<close> receives \<^verbatim>\<open>req.body\<close> as the platform parsed it and
  catches whatever the SDK throws, so both are arbitrary JavaScript values. Numbers are
  IEEE doubles in the source; the handler only tests them for truthiness, so a finite number
  is kept as a rational (\<open>-0\<close> and \<open>0\<close> coincide, both falsy). An object is the association
  list of its readable properties (first binding wins); an \<^verbatim>\<open>Error\<close> instance is the object
  whose \<^verbatim>\<open>message\<close> property holds its message.
\<close>

datatype js_number = NaN | PosInfinity | NegInfinity | Finite rat

datatype js_value =
    JUndefined
  | JNull
  | JBool bool
  | JNumber js_number
  | JString string
  | JArray "js_value list"
  | JObject "(string \<times> js_value) list"

datatype js_exception = TypeError

text \<open>ECMAScript \<^verbatim>\<open>ToBoolean\<close>, which \<^verbatim>\<open>!prompt\<close> and \<^verbatim>\<open>!GEMINI_API_KEY\<close> apply.\<close>

fun to_boolean :: "js_value \<Rightarrow> bool" where
  "to_boolean JUndefined = False"
| "to_boolean JNull = False"
| "to_boolean (JBool b) = b"
| "to_boolean (JNumber n) = (n \<noteq> NaN \<and> n \<noteq> Finite 0)"
| "to_boolean (JString s) = (s \<noteq> [])"
| "to_boolean (JArray xs) = True"
| "to_boolean (JObject fs) = True"

text \<open>
  The property read \<^verbatim>\<open>v.k\<close> (and the destructuring \<^verbatim>\<open>const { k } = v\<close>) for a name \<open>k\<close>
  that no built-in prototype defines; the handler reads \<^verbatim>\<open>prompt\<close> and \<^verbatim>\<open>message\<close> only.
  On \<^verbatim>\<open>undefined\<close> and \<^verbatim>\<open>null\<close> it throws a TypeError; on a primitive or an array it
  yields \<^verbatim>\<open>undefined\<close>; on an object it yields the property, or \<^verbatim>\<open>undefined\<close>.
\<close>

fun get_prop :: "js_value \<Rightarrow> string \<Rightarrow> js_exception + js_value" where
  "get_prop JUndefined k = Inl TypeError"
| "get_prop JNull k = Inl TypeError"
| "get_prop (JObject fs) k = (case map_of fs k of None \<Rightarrow> Inr JUndefined | Some v \<Rightarrow> Inr v)"
| "get_prop v k = Inr JUndefined"

section \<open>Request, effects and outcome\<close>

text \<open>The request as the handler reads it: \<^verbatim>\<open>req.method\<close> and \<^verbatim>\<open>req.body\<close>.\<close>

record request =
  req_method :: string
  body :: js_value

text \<open>
  What the code does to the outside world, in the order it does it:
  \<^verbatim>\<open>console.error(...)\<close>, \<^verbatim>\<open>new GoogleGenerativeAI(key)\<close>,
  \<^verbatim>\<open>genAI.getGenerativeModel(arg)\<close>, \<^verbatim>\<open>model.generateContent(prompt)\<close>,
  \<^verbatim>\<open>res.status(n)\<close> and \<^verbatim>\<open>.json(obj)\<close>. \<open>HandlerCalled\<close> marks the platform
  invoking the exported function. The methods of \<^verbatim>\<open>res\<close> and \<^verbatim>\<open>console.error\<close> belong
  to the platform and are taken to return; \<^verbatim>\<open>res.status(n)\<close> runs before the argument
  of \<^verbatim>\<open>.json\<close> is evaluated, so the two are separate events. An invocation either returns
  or lets an exception out (the promise of the \<^verbatim>\<open>async\<close> function rejects).
\<close>

datatype event =
    ConsoleError "js_value list"
  | NewGoogleGenerativeAI js_value
  | GetGenerativeModel js_value
  | HandlerCalled request
  | GenerateContent js_value
  | ResStatus nat
  | ResJson js_value

datatype completion = Returned | Threw js_exception

record outcome =
  trace :: "event list"
  completion :: completion

section \<open>The generative model of the SDK\<close>

text \<open>
  The SDK \<^verbatim>\<open>@google/generative-ai\<close> is not part of the repository; the handler is
  verified for every behaviour of the three operations it uses. Each either yields a value
  (\<open>Inr\<close>) or throws, respectively rejects with, a JavaScript value (\<open>Inl\<close>):
  \<^verbatim>\<open>await model.generateContent(prompt)\<close>, \<^verbatim>\<open>await result.response\<close> and
  \<^verbatim>\<open>response.text()\<close>, whose declared return type is \<^verbatim>\<open>string\<close>. Every awaited promise
  is taken to settle.
\<close>

record ('r, 'p) generative_model =
  generateContent :: "js_value \<Rightarrow> js_value + 'r"
  result_response :: "'r \<Rightarrow> js_value + 'p"
  response_text :: "'p \<Rightarrow> js_value + string"

section \<open>Module initialisation (lines 15 to 25)\<close>

definition module_load :: "js_value \<Rightarrow> event list" where
  "module_load GEMINI_API_KEY =
     (if \<not> to_boolean GEMINI_API_KEY
      then [ConsoleError [JString ''Gemini API key is not set. Please configure it as a Vercel Environment Variable named GEMINI_API_KEY.'']]
      else [])
     @ [NewGoogleGenerativeAI GEMINI_API_KEY,
        GetGenerativeModel (JObject [(''model'', JString ''gemini-pro'')])]"

section \<open>The handler (lines 29 to 57)\<close>

text \<open>The three statements of the \<^verbatim>\<open>try\<close> block that produce \<^verbatim>\<open>text\<close>.\<close>

definition generate :: "('r, 'p) generative_model \<Rightarrow> js_value \<Rightarrow> js_value + string" where
  "generate model prompt =
     (case generateContent model prompt of
        Inl error \<Rightarrow> Inl error
      | Inr result \<Rightarrow>
          (case result_response model result of
             Inl error \<Rightarrow> Inl error
           | Inr response \<Rightarrow> response_text model response))"

definition handler :: "('r, 'p) generative_model \<Rightarrow> request \<Rightarrow> outcome" where
  \<open>handler model req =
     (if req_method req \<noteq> ''POST'' then
        \<lparr>trace = [ResStatus 405,
                  ResJson (JObject [(''success'', JBool False),
                    (''error'', JString ''Method Not Allowed. Only POST requests are supported.'')])],
         completion = Returned\<rparr>
      else
        (case get_prop (body req) ''prompt'' of
           Inl exn \<Rightarrow> \<lparr>trace = [], completion = Threw exn\<rparr>
         | Inr prompt \<Rightarrow>
             (if \<not> to_boolean prompt then
                \<lparr>trace = [ResStatus 400,
                          ResJson (JObject [(''success'', JBool False),
                            (''error'', JString ''Missing "prompt" in request body.'')])],
                 completion = Returned\<rparr>
              else
                (case generate model prompt of
                   Inr text \<Rightarrow>
                     \<lparr>trace = [GenerateContent prompt, ResStatus 200,
                               ResJson (JObject [(''success'', JBool True), (''text'', JString text)])],
                      completion = Returned\<rparr>
                 | Inl error \<Rightarrow>
                     (case get_prop error ''message'' of
                        Inl exn \<Rightarrow>
                          \<lparr>trace = [GenerateContent prompt,
                                    ConsoleError [JString ''Error calling Gemini API:'', error],
                                    ResStatus 500],
                           completion = Threw exn\<rparr>
                      | Inr details \<Rightarrow>
                          \<lparr>trace = [GenerateContent prompt,
                                    ConsoleError [JString ''Error calling Gemini API:'', error],
                                    ResStatus 500,
                                    ResJson (JObject [(''success'', JBool False),
                                      (''error'', JString ''Failed to generate AI insight.''),
                                      (''details'', details)])],
                           completion = Returned\<rparr>)))))\<close>

section \<open>Observations on a trace\<close>

text \<open>The arguments of the calls to \<^verbatim>\<open>model.generateContent\<close>, in order.\<close>

fun generation_calls :: "event list \<Rightarrow> js_value list" where
  "generation_calls [] = []"
| "generation_calls (GenerateContent p # es) = p # generation_calls es"
| "generation_calls (e # es) = generation_calls es"

text \<open>The objects handed to \<^verbatim>\<open>res.json\<close>, in order.\<close>

fun sent_bodies :: "event list \<Rightarrow> js_value list" where
  "sent_bodies [] = []"
| "sent_bodies (ResJson b # es) = b # sent_bodies es"
| "sent_bodies (e # es) = sent_bodies es"

text \<open>The codes handed to \<^verbatim>\<open>res.status\<close>, in order.\<close>

fun set_statuses :: "event list \<Rightarrow> nat list" where
  "set_statuses [] = []"
| "set_statuses (ResStatus n # es) = n # set_statuses es"
| "set_statuses (e # es) = set_statuses es"

text \<open>
  The prompt check as a predicate on the body: the destructuring succeeds and the value
  it binds is truthy.
\<close>

definition truthy_prompt :: "js_value \<Rightarrow> bool" where
  "truthy_prompt b = (case get_prop b ''prompt'' of Inl exn \<Rightarrow> False | Inr prompt \<Rightarrow> to_boolean prompt)"

text \<open>
  A JSON envelope carries a field when the object has the property with a value other
  than \<^verbatim>\<open>undefined\<close> (which \<^verbatim>\<open>JSON.stringify\<close> leaves out). The envelope invariant of
  the data model: \<^verbatim>\<open>success\<close> is a boolean; when true there is \<^verbatim>\<open>text\<close> and neither
  \<^verbatim>\<open>error\<close> nor \<^verbatim>\<open>details\<close>; when false there is \<^verbatim>\<open>error\<close> and no \<^verbatim>\<open>text\<close>.
\<close>

definition carries :: "(string \<times> js_value) list \<Rightarrow> string \<Rightarrow> bool" where
  "carries fs k = (case map_of fs k of None \<Rightarrow> False | Some v \<Rightarrow> v \<noteq> JUndefined)"

fun envelope_ok :: "js_value \<Rightarrow> bool" where
  "envelope_ok (JObject fs) =
     (case map_of fs ''success'' of
        Some (JBool True) \<Rightarrow>
          carries fs ''text'' \<and> \<not> carries fs ''error'' \<and> \<not> carries fs ''details''
      | Some (JBool False) \<Rightarrow> carries fs ''error'' \<and> \<not> carries fs ''text''
      | _ \<Rightarrow> False)"
| "envelope_ok v = False"

section \<open>Life of a deployed instance\<close>

text \<open>
  Modelled from the spec: the hosting platform that loads the module and calls the exported
  handler is not in the repository. By section 4.1 the handler is ``invoked once per
  inbound HTTP call by the hosting platform''; Node runs the top level of the module
  (\<open>module_load\<close>) once, before \<^verbatim>\<open>module.exports\<close> exists and can be called. An
  invocation is a request together with what the generative service does during that
  invocation: by section 8 identical calls may be answered differently, so every
  invocation comes with its own behaviour of the three SDK operations.
\<close>

definition lifecycle :: "js_value \<Rightarrow> (('r, 'p) generative_model \<times> request) list \<Rightarrow> event list" where
  "lifecycle GEMINI_API_KEY invocations =
     module_load GEMINI_API_KEY
     @ concat (map (\<lambda>inv. HandlerCalled (snd inv) # trace (handler (fst inv) (snd inv))) invocations)"

fun is_handler_called :: "event \<Rightarrow> bool" where
  "is_handler_called (HandlerCalled req) = True"
| "is_handler_called e = False"

fun is_new_client :: "event \<Rightarrow> bool" where
  "is_new_client (NewGoogleGenerativeAI k) = True"
| "is_new_client e = False"

text \<open>
  Lazy construction, as a property of a trace: no client is constructed before the first
  call of the handler.
\<close>

definition lazily_constructed :: "event list \<Rightarrow> bool" where
  "lazily_constructed tr =
     list_all (\<lambda>e. \<not> is_new_client e) (takeWhile (\<lambda>e. \<not> is_handler_called e) tr)"

text \<open>
  The effects that leave nothing behind in the module: a call through the existing
  \<^verbatim>\<open>model\<close> handle, a log line, and the two operations on the \<^verbatim>\<open>res\<close> object of this
  very invocation. Constructing a client or a model handle, which is what the module-level
  bindings \<^verbatim>\<open>genAI\<close> and \<^verbatim>\<open>model\<close> hold, is not among them.
\<close>

fun per_invocation_effect :: "event \<Rightarrow> bool" where
  "per_invocation_effect (GenerateContent p) = True"
| "per_invocation_effect (ConsoleError args) = True"
| "per_invocation_effect (ResStatus n) = True"
| "per_invocation_effect (ResJson b) = True"
| "per_invocation_effect e = False"

section \<open>Method check\<close>

text \<open>
  C3. For every request whose HTTP method is not POST, whatever its body and whatever the
  SDK would do, the handler sets status 405, sends the body
  \<^verbatim>\<open>{success:false, error:"Method Not Allowed. Only POST requests are supported."}\<close>,
  does nothing else and returns.
\<close>

theorem non_post_405:
  assumes "req_method req \<noteq> ''POST''"
  shows "handler model req =
    \<lparr>trace = [ResStatus 405,
              ResJson (JObject [(''success'', JBool False),
                (''error'', JString ''Method Not Allowed. Only POST requests are supported.'')])],
     completion = Returned\<rparr>"
  using assms by (simp add: handler_def)

theorem non_post_405_witness:
  "req_method \<lparr>req_method = ''GET'', body = JUndefined\<rparr> \<noteq> ''POST'' \<and>
   handler \<lparr>generateContent = Inl, result_response = Inl, response_text = Inl\<rparr>
       \<lparr>req_method = ''GET'', body = JUndefined\<rparr> =
    \<lparr>trace = [ResStatus 405,
              ResJson (JObject [(''success'', JBool False),
                (''error'', JString ''Method Not Allowed. Only POST requests are supported.'')])],
     completion = Returned\<rparr>"
  using non_post_405 [of "\<lparr>req_method = ''GET'', body = JUndefined\<rparr>"
      "\<lparr>generateContent = Inl, result_response = Inl, response_text = Inl\<rparr>"]
  by simp

section \<open>Prompt check\<close>

text \<open>
  The destructuring \<^verbatim>\<open>const { prompt } = req.body\<close> throws exactly on \<^verbatim>\<open>undefined\<close> and
  \<^verbatim>\<open>null\<close>, and so does \<^verbatim>\<open>error.message\<close>.
\<close>

lemma get_prop_throws_iff:
  "get_prop v k = Inl exn \<longleftrightarrow> v = JUndefined \<or> v = JNull"
  by (cases v; cases exn) (simp_all split: option.split)

text \<open>
  On a body that can be destructured, a POST whose prompt is absent or falsy is answered
  with 400 and the static message, and a non-empty string prompt passes the check.
\<close>

lemma missing_prompt_400:
  assumes "req_method req = ''POST''"
    and "get_prop (body req) ''prompt'' = Inr prompt"
    and "\<not> to_boolean prompt"
  shows \<open>handler model req =
    \<lparr>trace = [ResStatus 400,
              ResJson (JObject [(''success'', JBool False),
                (''error'', JString ''Missing "prompt" in request body.'')])],
     completion = Returned\<rparr>\<close>
  using assms by (simp add: handler_def)

lemma nonempty_string_prompt_passes:
  "s \<noteq> [] \<Longrightarrow> map_of fs ''prompt'' = Some (JString s) \<Longrightarrow> truthy_prompt (JObject fs)"
  by (simp add: truthy_prompt_def)

text \<open>
  C4. A POST request that arrives without a body (the platform leaves \<^verbatim>\<open>req.body\<close>
  \<^verbatim>\<open>undefined\<close>) lacks a prompt, yet it is not answered with 400: the destructuring throws a
  TypeError before the prompt check, nothing is sent, and the exception leaves the handler.
  The JSON body \<^verbatim>\<open>null\<close> fares the same.
\<close>

theorem post_without_body_no_400:
  "handler model \<lparr>req_method = ''POST'', body = JUndefined\<rparr> =
     \<lparr>trace = [], completion = Threw TypeError\<rparr> \<and>
   handler model \<lparr>req_method = ''POST'', body = JNull\<rparr> =
     \<lparr>trace = [], completion = Threw TypeError\<rparr>"
  by (simp add: handler_def)

text \<open>
  C5. The method check comes first. A request that is not a POST and has no truthy prompt
  is answered with 405 and never with 400; for a request that is not a POST the outcome
  does not depend on the body at all, so the body is never read; a 400 is sent, and the
  destructuring can throw, for POST requests only.
\<close>

theorem method_check_first:
  "(req_method req \<noteq> ''POST'' \<longrightarrow>
      \<not> truthy_prompt (body req) \<longrightarrow>
      ResStatus 405 \<in> set (trace (handler model req)) \<and>
      ResStatus 400 \<notin> set (trace (handler model req))) \<and>
   (req_method req \<noteq> ''POST'' \<longrightarrow> handler model (req\<lparr>body := b\<rparr>) = handler model req) \<and>
   (ResStatus 400 \<in> set (trace (handler model req)) \<longrightarrow> req_method req = ''POST'') \<and>
   (completion (handler model req) \<noteq> Returned \<longrightarrow> req_method req = ''POST'')"
  by (simp add: handler_def split: sum.split)

theorem method_check_first_witness:
  "req_method \<lparr>req_method = ''GET'', body = JUndefined\<rparr> \<noteq> ''POST'' \<and>
   \<not> truthy_prompt (body \<lparr>req_method = ''GET'', body = JUndefined\<rparr>) \<and>
   ResStatus 405 \<in> set (trace (handler \<lparr>generateContent = Inl, result_response = Inl, response_text = Inl\<rparr>
       \<lparr>req_method = ''GET'', body = JUndefined\<rparr>)) \<and>
   ResStatus 400 \<notin> set (trace (handler \<lparr>generateContent = Inl, result_response = Inl, response_text = Inl\<rparr>
       \<lparr>req_method = ''GET'', body = JUndefined\<rparr>)) \<and>
   handler \<lparr>generateContent = Inl, result_response = Inl, response_text = Inl\<rparr>
       (\<lparr>req_method = ''GET'', body = JUndefined\<rparr>\<lparr>body := JObject [(''prompt'', JString ''Hello'')]\<rparr>) =
     handler \<lparr>generateContent = Inl, result_response = Inl, response_text = Inl\<rparr>
       \<lparr>req_method = ''GET'', body = JUndefined\<rparr> \<and>
   ResStatus 400 \<in> set (trace (handler \<lparr>generateContent = Inl, result_response = Inl, response_text = Inl\<rparr>
       \<lparr>req_method = ''POST'', body = JObject []\<rparr>)) \<and>
   req_method \<lparr>req_method = ''POST'', body = JObject []\<rparr> = ''POST'' \<and>
   completion (handler \<lparr>generateContent = Inl, result_response = Inl, response_text = Inl\<rparr>
       \<lparr>req_method = ''POST'', body = JNull\<rparr>) \<noteq> Returned \<and>
   req_method \<lparr>req_method = ''POST'', body = JNull\<rparr> = ''POST''"
  using method_check_first [of "\<lparr>req_method = ''GET'', body = JUndefined\<rparr>"
      "\<lparr>generateContent = Inl, result_response = Inl, response_text = Inl\<rparr>"
      "JObject [(''prompt'', JString ''Hello'')]"]
    method_check_first [of "\<lparr>req_method = ''POST'', body = JObject []\<rparr>"
      "\<lparr>generateContent = Inl, result_response = Inl, response_text = Inl\<rparr>"]
    method_check_first [of "\<lparr>req_method = ''POST'', body = JNull\<rparr>"
      "\<lparr>generateContent = Inl, result_response = Inl, response_text = Inl\<rparr>"]
  by (simp add: truthy_prompt_def handler_def)

section \<open>Generation\<close>

text \<open>
  The \<^verbatim>\<open>try\<close> block yields text exactly when all three SDK operations succeed in turn,
  and fails with the value thrown by the first one that fails.
\<close>

lemma generate_Inr_iff:
  "generate model prompt = Inr T \<longleftrightarrow>
     (\<exists>result response. generateContent model prompt = Inr result \<and>
        result_response model result = Inr response \<and>
        response_text model response = Inr T)"
  by (auto simp: generate_def split: sum.splits)

lemma generate_Inl_iff:
  "generate model prompt = Inl error \<longleftrightarrow>
     generateContent model prompt = Inl error \<or>
     (\<exists>result. generateContent model prompt = Inr result \<and>
        (result_response model result = Inl error \<or>
         (\<exists>response. result_response model result = Inr response \<and>
            response_text model response = Inl error)))"
  by (auto simp: generate_def split: sum.splits)

text \<open>
  C1. For a POST request whose body holds a truthy prompt, when the SDK succeeds, that is
  \<^verbatim>\<open>await model.generateContent(prompt)\<close> yields a result, \<^verbatim>\<open>await result.response\<close>
  yields a response and \<^verbatim>\<open>response.text()\<close> returns \<open>T\<close>, the handler calls
  \<^verbatim>\<open>generateContent\<close> with the very value found in the body, sets status 200, sends
  \<^verbatim>\<open>{success:true, text:T}\<close> and returns.
\<close>

theorem generation_success_200:
  assumes "req_method req = ''POST''"
    and "get_prop (body req) ''prompt'' = Inr prompt"
    and "to_boolean prompt"
    and "generateContent model prompt = Inr result"
    and "result_response model result = Inr response"
    and "response_text model response = Inr T"
  shows "handler model req =
    \<lparr>trace = [GenerateContent prompt, ResStatus 200,
              ResJson (JObject [(''success'', JBool True), (''text'', JString T)])],
     completion = Returned\<rparr>"
  using assms by (simp add: handler_def generate_def)

theorem generation_success_200_witness:
  "handler \<lparr>generateContent = Inr, result_response = Inr, response_text = (\<lambda>response. Inr ''Hi there!'')\<rparr>
       \<lparr>req_method = ''POST'', body = JObject [(''prompt'', JString ''Hello'')]\<rparr> =
    \<lparr>trace = [GenerateContent (JString ''Hello''), ResStatus 200,
              ResJson (JObject [(''success'', JBool True), (''text'', JString ''Hi there!'')])],
     completion = Returned\<rparr>"
  using generation_success_200 [of "\<lparr>req_method = ''POST'', body = JObject [(''prompt'', JString ''Hello'')]\<rparr>"
      "JString ''Hello''"
      "\<lparr>generateContent = Inr, result_response = Inr, response_text = (\<lambda>response. Inr ''Hi there!'')\<rparr>"
      "JString ''Hello''" "JString ''Hello''" "''Hi there!''"]
  by simp

text \<open>
  C2. For a POST request whose body holds a truthy prompt, when the SDK fails, that is
  \<^verbatim>\<open>await model.generateContent(prompt)\<close>, or after it \<^verbatim>\<open>await result.response\<close>, or
  after both \<^verbatim>\<open>response.text()\<close> throws an error whose message is \<open>M\<close>, the handler
  catches it, logs it, sets status 500, sends exactly
  \<^verbatim>\<open>{success:false, error:"Failed to generate AI insight.", details:M}\<close> and returns; no
  exception leaves it.
\<close>

theorem generation_failure_500:
  assumes "req_method req = ''POST''"
    and "get_prop (body req) ''prompt'' = Inr prompt"
    and "to_boolean prompt"
    and "generateContent model prompt = Inl error \<or>
         (\<exists>result. generateContent model prompt = Inr result \<and>
            (result_response model result = Inl error \<or>
             (\<exists>response. result_response model result = Inr response \<and>
                response_text model response = Inl error)))"
    and "get_prop error ''message'' = Inr (JString M)"
  shows "handler model req =
    \<lparr>trace = [GenerateContent prompt,
              ConsoleError [JString ''Error calling Gemini API:'', error],
              ResStatus 500,
              ResJson (JObject [(''success'', JBool False),
                (''error'', JString ''Failed to generate AI insight.''),
                (''details'', JString M)])],
     completion = Returned\<rparr>"
  using assms by (auto simp: handler_def generate_def)

theorem generation_failure_500_witness:
  "handler \<lparr>generateContent = (\<lambda>prompt. Inl (JObject [(''message'', JString ''rate limit exceeded'')])),
            result_response = Inr, response_text = Inr\<rparr>
       \<lparr>req_method = ''POST'', body = JObject [(''prompt'', JString ''X'')]\<rparr> =
    \<lparr>trace = [GenerateContent (JString ''X''),
              ConsoleError [JString ''Error calling Gemini API:'',
                JObject [(''message'', JString ''rate limit exceeded'')]],
              ResStatus 500,
              ResJson (JObject [(''success'', JBool False),
                (''error'', JString ''Failed to generate AI insight.''),
                (''details'', JString ''rate limit exceeded'')])],
     completion = Returned\<rparr> \<and>
   handler \<lparr>generateContent = Inr,
            result_response = (\<lambda>result. Inl (JObject [(''message'', JString ''no response'')])),
            response_text = Inr\<rparr>
       \<lparr>req_method = ''POST'', body = JObject [(''prompt'', JString ''X'')]\<rparr> =
    \<lparr>trace = [GenerateContent (JString ''X''),
              ConsoleError [JString ''Error calling Gemini API:'',
                JObject [(''message'', JString ''no response'')]],
              ResStatus 500,
              ResJson (JObject [(''success'', JBool False),
                (''error'', JString ''Failed to generate AI insight.''),
                (''details'', JString ''no response'')])],
     completion = Returned\<rparr> \<and>
   handler \<lparr>generateContent = Inr, result_response = Inr,
            response_text = (\<lambda>response. Inl (JObject [(''message'', JString ''blocked'')]))\<rparr>
       \<lparr>req_method = ''POST'', body = JObject [(''prompt'', JString ''X'')]\<rparr> =
    \<lparr>trace = [GenerateContent (JString ''X''),
              ConsoleError [JString ''Error calling Gemini API:'',
                JObject [(''message'', JString ''blocked'')]],
              ResStatus 500,
              ResJson (JObject [(''success'', JBool False),
                (''error'', JString ''Failed to generate AI insight.''),
                (''details'', JString ''blocked'')])],
     completion = Returned\<rparr>"
  using generation_failure_500 [of "\<lparr>req_method = ''POST'', body = JObject [(''prompt'', JString ''X'')]\<rparr>"
      "JString ''X''"
      "\<lparr>generateContent = (\<lambda>prompt. Inl (JObject [(''message'', JString ''rate limit exceeded'')])),
            result_response = Inr, response_text = Inr\<rparr>"
      "JObject [(''message'', JString ''rate limit exceeded'')]"
      "''rate limit exceeded''"]
    generation_failure_500 [of "\<lparr>req_method = ''POST'', body = JObject [(''prompt'', JString ''X'')]\<rparr>"
      "JString ''X''"
      "\<lparr>generateContent = Inr,
            result_response = (\<lambda>result. Inl (JObject [(''message'', JString ''no response'')])),
            response_text = Inr\<rparr>"
      "JObject [(''message'', JString ''no response'')]"
      "''no response''"]
    generation_failure_500 [of "\<lparr>req_method = ''POST'', body = JObject [(''prompt'', JString ''X'')]\<rparr>"
      "JString ''X''"
      "\<lparr>generateContent = Inr, result_response = Inr,
            response_text = (\<lambda>response. Inl (JObject [(''message'', JString ''blocked'')]))\<rparr>"
      "JObject [(''message'', JString ''blocked'')]"
      "''blocked''"]
  by simp

section \<open>Calls to the generative model\<close>

text \<open>
  C6. The handler makes no call to \<^verbatim>\<open>generateContent\<close> exactly when local validation
  rejects the request: the method is not POST, or the body has no truthy prompt. So a
  rejected request never reaches the SDK, and a call happens only after both checks passed.
\<close>

theorem rejected_no_generation_call:
  "generation_calls (trace (handler model req)) = [] \<longleftrightarrow>
     req_method req \<noteq> ''POST'' \<or> \<not> truthy_prompt (body req)"
  by (simp add: handler_def truthy_prompt_def split: sum.split)

theorem rejected_no_generation_call_witness:
  "\<not> truthy_prompt (body \<lparr>req_method = ''POST'', body = JObject [(''prompt'', JString [])]\<rparr>) \<and>
   generation_calls (trace (handler \<lparr>generateContent = Inl, result_response = Inl, response_text = Inl\<rparr>
       \<lparr>req_method = ''POST'', body = JObject [(''prompt'', JString [])]\<rparr>)) = []"
  using rejected_no_generation_call [of "\<lparr>generateContent = Inl, result_response = Inl, response_text = Inl\<rparr>"
      "\<lparr>req_method = ''POST'', body = JObject [(''prompt'', JString [])]\<rparr>"]
  by (simp add: truthy_prompt_def)

text \<open>
  C8. Whatever the request and whatever the SDK does, one invocation of the handler calls
  \<^verbatim>\<open>generateContent\<close> at most once; when both checks pass it calls it exactly once, with
  the prompt, also when the generation fails: there is no second attempt.
\<close>

theorem at_most_one_generation_call:
  "length (generation_calls (trace (handler model req))) \<le> 1 \<and>
   (req_method req = ''POST'' \<longrightarrow> get_prop (body req) ''prompt'' = Inr prompt \<longrightarrow> to_boolean prompt \<longrightarrow>
      generation_calls (trace (handler model req)) = [prompt])"
  by (simp add: handler_def split: sum.split)

theorem at_most_one_generation_call_witness:
  "req_method \<lparr>req_method = ''POST'', body = JObject [(''prompt'', JString ''X'')]\<rparr> = ''POST'' \<and>
   get_prop (body \<lparr>req_method = ''POST'', body = JObject [(''prompt'', JString ''X'')]\<rparr>) ''prompt''
     = Inr (JString ''X'') \<and>
   to_boolean (JString ''X'') \<and>
   generate \<lparr>generateContent = Inl, result_response = Inl, response_text = Inl\<rparr> (JString ''X'')
     = Inl (JString ''X'') \<and>
   generation_calls (trace (handler \<lparr>generateContent = Inl, result_response = Inl, response_text = Inl\<rparr>
       \<lparr>req_method = ''POST'', body = JObject [(''prompt'', JString ''X'')]\<rparr>)) = [JString ''X'']"
  using at_most_one_generation_call [of "\<lparr>generateContent = Inl, result_response = Inl, response_text = Inl\<rparr>"
      "\<lparr>req_method = ''POST'', body = JObject [(''prompt'', JString ''X'')]\<rparr>" "JString ''X''"]
  by (simp add: generate_def)

section \<open>Response envelope\<close>

text \<open>
  C7. Every object the handler sends, on any of its paths (200, 400, 405, 500), satisfies
  the envelope invariant: with \<^verbatim>\<open>success\<close> true it carries \<^verbatim>\<open>text\<close> and neither
  \<^verbatim>\<open>error\<close> nor \<^verbatim>\<open>details\<close>; with \<^verbatim>\<open>success\<close> false it carries \<^verbatim>\<open>error\<close> and no
  \<^verbatim>\<open>text\<close>.
\<close>

theorem envelope_invariant:
  "b \<in> set (sent_bodies (trace (handler model req))) \<Longrightarrow> envelope_ok b"
  by (auto simp: handler_def carries_def split: sum.splits if_splits)

theorem envelope_invariant_witness:
  "JObject [(''success'', JBool True), (''text'', JString ''Hi there!'')] \<in>
     set (sent_bodies (trace (handler
       \<lparr>generateContent = Inr, result_response = Inr, response_text = (\<lambda>response. Inr ''Hi there!'')\<rparr>
       \<lparr>req_method = ''POST'', body = JObject [(''prompt'', JString ''Hello'')]\<rparr>))) \<and>
   envelope_ok (JObject [(''success'', JBool True), (''text'', JString ''Hi there!'')])"
proof -
  have sent: "JObject [(''success'', JBool True), (''text'', JString ''Hi there!'')] \<in>
     set (sent_bodies (trace (handler
       \<lparr>generateContent = Inr, result_response = Inr, response_text = (\<lambda>response. Inr ''Hi there!'')\<rparr>
       \<lparr>req_method = ''POST'', body = JObject [(''prompt'', JString ''Hello'')]\<rparr>)))"
    by (simp add: handler_def generate_def)
  from sent envelope_invariant [OF sent] show ?thesis by simp
qed

section \<open>Completion\<close>

text \<open>
  When a POST request has a body that is neither \<^verbatim>\<open>undefined\<close> nor \<^verbatim>\<open>null\<close>, and the SDK
  throws neither of the two, the handler returns, having set one status and sent one
  object.
\<close>

lemma responds_once_unless_nullish:
  assumes "req_method req = ''POST'' \<longrightarrow> body req \<noteq> JUndefined \<and> body req \<noteq> JNull"
    and "\<And>prompt error. generate model prompt = Inl error \<Longrightarrow> error \<noteq> JUndefined \<and> error \<noteq> JNull"
  shows "completion (handler model req) = Returned \<and>
    length (set_statuses (trace (handler model req))) = 1 \<and>
    length (sent_bodies (trace (handler model req))) = 1"
proof (cases "req_method req = ''POST''")
  case False
  then show ?thesis by (simp add: handler_def)
next
  case True
  with assms(1) obtain prompt where p: "get_prop (body req) ''prompt'' = Inr prompt"
    by (cases "get_prop (body req) ''prompt''") (auto simp: get_prop_throws_iff)
  show ?thesis
  proof (cases "generate model prompt")
    case (Inr T)
    with True p show ?thesis by (simp add: handler_def)
  next
    case (Inl error)
    with assms(2) obtain details where "get_prop error ''message'' = Inr details"
      by (cases "get_prop error ''message''") (auto simp: get_prop_throws_iff)
    with True p Inl show ?thesis by (simp add: handler_def)
  qed
qed

text \<open>
  An SDK failure whose thrown value is \<^verbatim>\<open>null\<close> or \<^verbatim>\<open>undefined\<close> makes
  \<^verbatim>\<open>error.message\<close> throw inside the \<^verbatim>\<open>catch\<close> block: status 500 is set, nothing is
  sent, and the TypeError leaves the handler.
\<close>

lemma nullish_error_escapes:
  assumes "req_method req = ''POST''"
    and "get_prop (body req) ''prompt'' = Inr prompt"
    and "to_boolean prompt"
    and "generate model prompt = Inl error"
    and "error = JUndefined \<or> error = JNull"
  shows "handler model req =
    \<lparr>trace = [GenerateContent prompt,
              ConsoleError [JString ''Error calling Gemini API:'', error],
              ResStatus 500],
     completion = Threw TypeError\<rparr>"
  using assms by (auto simp: handler_def)

text \<open>
  C10. The handler is not total: on a POST request without a body (\<^verbatim>\<open>req.body\<close> is
  \<^verbatim>\<open>undefined\<close>) it does not return, a TypeError leaves it, and it has set no status and
  sent no object.
\<close>

theorem post_without_body_throws:
  "completion (handler model \<lparr>req_method = ''POST'', body = JUndefined\<rparr>) \<noteq> Returned \<and>
   set_statuses (trace (handler model \<lparr>req_method = ''POST'', body = JUndefined\<rparr>)) = [] \<and>
   sent_bodies (trace (handler model \<lparr>req_method = ''POST'', body = JUndefined\<rparr>)) = []"
  by (simp add: handler_def)

section \<open>Construction of the client\<close>

lemma handler_no_new_client:
  "filter is_new_client (trace (handler model req)) = []"
  by (simp add: handler_def split: sum.split)

lemma lifecycle_new_client:
  "filter is_new_client (lifecycle key invocations) = [NewGoogleGenerativeAI key]"
  by (induction invocations) (simp_all add: lifecycle_def module_load_def handler_no_new_client)

lemma takeWhile_lifecycle:
  "takeWhile (\<lambda>e. \<not> is_handler_called e) (lifecycle key invocations) = module_load key"
proof -
  have load: "\<And>e. e \<in> set (module_load key) \<Longrightarrow> \<not> is_handler_called e"
    by (auto simp: module_load_def)
  have calls: "takeWhile (\<lambda>e. \<not> is_handler_called e)
      (concat (map (\<lambda>inv. HandlerCalled (snd inv) # trace (handler (fst inv) (snd inv)))
         invocations)) = []"
    by (cases invocations) simp_all
  show ?thesis
    unfolding lifecycle_def using load calls by simp
qed

text \<open>
  C9, as stated, fails: the client is constructed when the module is loaded, which is
  before the first call of the handler. Here the module is loaded with key \<^verbatim>\<open>"k"\<close> and
  the handler is then called once.
\<close>

theorem client_not_lazy_counterexample:
  "\<not> lazily_constructed
       (lifecycle (JString ''k'')
          [(\<lparr>generateContent = Inl, result_response = Inl, response_text = Inl\<rparr>,
            \<lparr>req_method = ''GET'', body = JUndefined\<rparr>)])"
  by (simp add: lazily_constructed_def lifecycle_def module_load_def handler_def)

text \<open>
  C9, amended. The client is constructed eagerly: in every life of an instance, for any key
  and any sequence of invocations (the empty one too), exactly one client is constructed,
  with the key, and that happens before the first call of the handler. A call of the
  handler constructs no client and no model handle: for every request and every behaviour
  of the SDK, all it does is call through the existing handle, log, and operate on its own
  \<^verbatim>\<open>res\<close> object, so it leaves no state behind for later calls.
\<close>

theorem client_constructed_at_load:
  "filter is_new_client (takeWhile (\<lambda>e. \<not> is_handler_called e) (lifecycle key invocations))
     = [NewGoogleGenerativeAI key] \<and>
   filter is_new_client (lifecycle key invocations) = [NewGoogleGenerativeAI key] \<and>
   list_all per_invocation_effect (trace (handler model req))"
proof (intro conjI)
  show "filter is_new_client (takeWhile (\<lambda>e. \<not> is_handler_called e) (lifecycle key invocations))
     = [NewGoogleGenerativeAI key]"
    by (simp add: takeWhile_lifecycle module_load_def)
  show "filter is_new_client (lifecycle key invocations) = [NewGoogleGenerativeAI key]"
    by (rule lifecycle_new_client)
  show "list_all per_invocation_effect (trace (handler model req))"
    by (simp add: handler_def split: sum.split)
qed

end
